theory Spec2Isabelle
  imports Complex_Main "HOL-Library.Word" "HOL-Library.Sublist"
begin

section \<open>The audio recorder of \<open>main.py\<close> and \<open>config.py\<close>\<close>

text \<open>
  The recorder reads fixed-size frames from a capture stream, asks a voice-activity
  detector for a verdict on each, and keeps a small state machine in the fields of the
  \<open>AudioRecorder\<close> object. The embedding below follows the source statement by
  statement: the object is a record, every mutation is a record update, and everything
  outside the object (the file system, the clock, the console and the two audio handles)
  is a second record that is passed along.
\<close>

subsection \<open>Data\<close>

text \<open>
  The stream is opened with \<open>paInt16\<close> and one channel, so a frame is a block of 16-bit
  samples. The source holds it as the bytes of those samples; the model holds the samples,
  which makes \<open>np.frombuffer(b''.join(buffer), dtype=np.int16)\<close> the concatenation.
\<close>

type_synonym frame = "16 word list"

text \<open>
  The module \<open>config.py\<close>. The two durations are in seconds; the source writes them as
  Python numbers (\<open>3\<close> and \<open>0.1\<close>), which the model reads as the rationals they denote.
\<close>

record config =
  OUTPUT_FORMAT :: string
  NETWORK_PATH :: string
  BACKUP_PATH :: string
  SAMPLE_RATE :: int
  FRAME_DURATION :: int
  SILENCE_DURATION_BEFORE_SAVE :: rat
  TRAILING_SILENCE_TO_KEEP :: rat
  VAD_SENSITIVITY :: int
  MINIMUM_CONSECUTIVE_SPEECH_FRAMES :: int

definition default_config :: config where
  "default_config =
     \<lparr> OUTPUT_FORMAT = ''flac'',
       NETWORK_PATH = ''/mnt/smbhome/audio_in/'',
       BACKUP_PATH = ''./backup_audio/'',
       SAMPLE_RATE = 16000,
       FRAME_DURATION = 30,
       SILENCE_DURATION_BEFORE_SAVE = 3,
       TRAILING_SILENCE_TO_KEEP = 1 / 10,
       VAD_SENSITIVITY = 3,
       MINIMUM_CONSECUTIVE_SPEECH_FRAMES = 7 \<rparr>"

text \<open>
  Exceptions are values. All of them are subclasses of Python's \<open>Exception\<close>, which is
  what the two handlers of \<open>save_recording\<close> catch; each carries its message.
\<close>

datatype exn =
    FileNotFoundError string
  | OSError string
  | ZeroDivisionError
  | Exception string

fun str_of :: "exn \<Rightarrow> string" where
  "str_of (FileNotFoundError m) = m"
| "str_of (OSError m) = m"
| "str_of ZeroDivisionError = ''division by zero''"
| "str_of (Exception m) = m"

text \<open>What an audio file holds: its container, its sample rate and its samples.\<close>

datatype container = WAV | FLAC

record audio_file =
  kind :: container
  rate :: int
  samples :: "16 word list"

text \<open>
  The world outside the object. \<open>io_error\<close> is the environment's answer to an attempt
  to create a file at a path: the exception the attempt raises (a missing parent directory,
  a permission, a stalled network share, an encoder that rejects the data), or none.
  \<open>clock\<close> is what \<open>datetime.now().strftime('%Y%m%d_%H%M%S')\<close> returns; the program only
  reads it, so it stands still while the model runs, and no statement below depends on the
  names of two files. \<open>persist_calls\<close> is not in the source: it is instrumentation that
  notes the buffer and the silence counter on each entry to \<open>save_recording\<close>, so that a
  theorem can speak of the segment as it was handed over, before trimming.
\<close>

record world =
  dirs :: "string set"
  files :: "string \<rightharpoonup> audio_file"
  io_error :: "string \<Rightarrow> exn option"
  clock :: string
  stdout :: "string list"
  devices :: "string list"
  stream_open :: bool
  audio_alive :: bool
  persist_calls :: "(frame list \<times> int) list"

text \<open>The fields of an \<open>AudioRecorder\<close> (the detector handle apart).\<close>

record recorder =
  sample_rate :: int
  frame_duration :: int
  frame_size :: int
  recording :: bool
  buffer :: "frame list"
  silence_threshold :: int
  silence_counter :: int
  trailing_silence_frames :: int
  network_path :: string
  backup_path :: string
  speech_detected_in_recording :: bool
  speech_frame_counter :: int
  speech_pre_buffer :: "frame list"

subsection \<open>Library calls\<close>

text \<open>\<open>print\<close> appends a line to the console.\<close>

definition print :: "string \<Rightarrow> world \<Rightarrow> world" where
  "print line w = w\<lparr>stdout := stdout w @ [line]\<rparr>"

text \<open>\<open>int(x)\<close> on a number truncates towards zero.\<close>

definition py_int :: "rat \<Rightarrow> int" where
  "py_int q = (if 0 \<le> q then \<lfloor>q\<rfloor> else \<lceil>q\<rceil>)"

text \<open>\<open>str.lower\<close> on ASCII.\<close>

definition lower_char :: "char \<Rightarrow> char" where
  "lower_char c =
     (let n = (of_char c :: nat) in if 65 \<le> n \<and> n \<le> 90 then char_of (n + 32) else c)"

definition lower :: "string \<Rightarrow> string" where
  "lower s = map lower_char s"

text \<open>\<open>os.path.join\<close> on two components, the second one relative.\<close>

definition path_join :: "string \<Rightarrow> string \<Rightarrow> string" where
  "path_join a b = (if a = [] \<or> last a = CHR ''/'' then a @ b else a @ ''/'' @ b)"

definition path_exists :: "world \<Rightarrow> string \<Rightarrow> bool" where
  "path_exists w p \<longleftrightarrow> p \<in> dirs w \<or> p \<in> dom (files w)"

definition makedirs :: "string \<Rightarrow> world \<Rightarrow> world" where
  "makedirs p w = w\<lparr>dirs := insert p (dirs w)\<rparr>"

text \<open>
  \<open>wave.open(filepath, 'wb')\<close> opens the path with the built-in \<open>open\<close> in mode
  \<open>'wb'\<close>: an existing file is truncated and written anew.
\<close>

definition wave_open_wb :: "string \<Rightarrow> audio_file \<Rightarrow> world \<Rightarrow> exn + world" where
  "wave_open_wb filepath af w =
     (case io_error w filepath of
        Some e \<Rightarrow> Inl e
      | None \<Rightarrow> Inr (w\<lparr>files := (files w)(filepath \<mapsto> af)\<rparr>))"

text \<open>
  \<open>sf.SoundFile(filepath, mode='x', ...)\<close> creates the file exclusively: the library
  raises \<open>OSError\<close> when a file is already there.
\<close>

definition soundfile_open_x :: "string \<Rightarrow> audio_file \<Rightarrow> world \<Rightarrow> exn + world" where
  "soundfile_open_x filepath af w =
     (if filepath \<in> dom (files w) then Inl (OSError (''File exists: '' @ filepath))
      else case io_error w filepath of
        Some e \<Rightarrow> Inl e
      | None \<Rightarrow> Inr (w\<lparr>files := (files w)(filepath \<mapsto> af)\<rparr>))"

subsection \<open>\<open>AudioRecorder.__init__\<close>\<close>

definition new_recorder :: "config \<Rightarrow> recorder" where
  "new_recorder cfg =
     \<lparr> sample_rate = SAMPLE_RATE cfg,
       frame_duration = FRAME_DURATION cfg,
       frame_size = py_int (of_int (SAMPLE_RATE cfg * FRAME_DURATION cfg) / 1000),
       recording = False,
       buffer = [],
       silence_threshold =
         py_int ((SILENCE_DURATION_BEFORE_SAVE cfg * 1000) / of_int (FRAME_DURATION cfg)),
       silence_counter = 0,
       trailing_silence_frames =
         py_int ((TRAILING_SILENCE_TO_KEEP cfg * 1000) / of_int (FRAME_DURATION cfg)),
       network_path = NETWORK_PATH cfg,
       backup_path = BACKUP_PATH cfg,
       speech_detected_in_recording = False,
       speech_frame_counter = 0,
       speech_pre_buffer = [] \<rparr>"

text \<open>
  The two quotients divide by the frame duration, so a frame duration of zero raises.
  The backup directory is created when it is missing; the network directory never is.
\<close>

definition init :: "config \<Rightarrow> world \<Rightarrow> exn + recorder \<times> world" where
  "init cfg w =
     (if FRAME_DURATION cfg = 0 then Inl ZeroDivisionError
      else Inr (new_recorder cfg,
                if \<not> path_exists w (BACKUP_PATH cfg) then makedirs (BACKUP_PATH cfg) w
                else w))"

subsection \<open>Writing a file\<close>

definition save_to_wave_file ::
  "recorder \<Rightarrow> 16 word list \<Rightarrow> string \<Rightarrow> world \<Rightarrow> exn + world" where
  "save_to_wave_file self audio_data filepath w =
     wave_open_wb filepath \<lparr>kind = WAV, rate = sample_rate self, samples = audio_data\<rparr> w"

definition save_to_flac_file ::
  "recorder \<Rightarrow> 16 word list \<Rightarrow> string \<Rightarrow> world \<Rightarrow> exn + world" where
  "save_to_flac_file self audio_data filepath w =
     soundfile_open_x filepath \<lparr>kind = FLAC, rate = sample_rate self, samples = audio_data\<rparr> w"

definition write_audio_file ::
  "config \<Rightarrow> recorder \<Rightarrow> 16 word list \<Rightarrow> string \<Rightarrow> world \<Rightarrow> exn + world" where
  "write_audio_file cfg self audio_data filepath w =
     (if lower (OUTPUT_FORMAT cfg) = ''wav'' then save_to_wave_file self audio_data filepath w
      else save_to_flac_file self audio_data filepath w)"

subsection \<open>\<open>AudioRecorder.save_recording\<close>\<close>

text \<open>
  The trim of lines 161 to 164: \<open>buffer[:-trim_frames]\<close> with a positive \<open>trim_frames\<close>
  keeps the first \<open>len(buffer) - trim_frames\<close> frames, none when that is negative. The
  silence counter is left as it was.
\<close>

definition trim :: "recorder \<Rightarrow> recorder" where
  "trim self =
     (if silence_counter self > trailing_silence_frames self then
        let trim_frames = silence_counter self - trailing_silence_frames self
        in self\<lparr>buffer := take (nat (int (length (buffer self)) - trim_frames)) (buffer self)\<rparr>
      else self)"

definition file_name :: "config \<Rightarrow> world \<Rightarrow> string" where
  "file_name cfg w = ''recording_'' @ clock w @ ''.'' @ OUTPUT_FORMAT cfg"

text \<open>The inner \<open>try\<close>: the write to the backup path, and its handler.\<close>

definition save_fallback ::
  "config \<Rightarrow> recorder \<Rightarrow> 16 word list \<Rightarrow> string \<Rightarrow> world \<Rightarrow> exn + world" where
  "save_fallback cfg self audio_data filename w =
     (let backup_file_path = path_join (backup_path self) filename in
      case write_audio_file cfg self audio_data backup_file_path w of
        Inr w' \<Rightarrow> Inr (print (''Saved recording to backup location: '' @ backup_file_path) w')
      | Inl e \<Rightarrow> Inr (print (''Failed to save recording: '' @ str_of e) w))"

text \<open>The outer \<open>try\<close>: the check of the network directory and the write under it.\<close>

definition save_primary ::
  "config \<Rightarrow> recorder \<Rightarrow> 16 word list \<Rightarrow> string \<Rightarrow> world \<Rightarrow> exn + world" where
  "save_primary cfg self audio_data network_file_path w =
     (if \<not> path_exists w (network_path self) then
        Inl (FileNotFoundError
               (''Network directory '' @ network_path self @ '' does not exist''))
      else case write_audio_file cfg self audio_data network_file_path w of
        Inl e \<Rightarrow> Inl e
      | Inr w' \<Rightarrow> Inr (print (''Saved recording to network drive: '' @ network_file_path) w'))"

definition save_recording :: "config \<Rightarrow> recorder \<times> world \<Rightarrow> exn + recorder \<times> world" where
  "save_recording cfg sw =
     (let self = fst sw;
          w = (snd sw)\<lparr>persist_calls :=
                 persist_calls (snd sw) @ [(buffer self, silence_counter self)]\<rparr>
      in if length (buffer self) \<le> 1 then Inr (self, w)
      else
        let self = trim self;
            filename = file_name cfg w;
            audio_data = concat (buffer self);
            network_file_path = path_join (network_path self) filename
        in case save_primary cfg self audio_data network_file_path w of
             Inr w' \<Rightarrow> Inr (self, w')
           | Inl _ \<Rightarrow>
               (case save_fallback cfg self audio_data filename w of
                  Inr w' \<Rightarrow> Inr (self, w')
                | Inl e \<Rightarrow> Inl e))"

subsection \<open>One turn of the loop of \<open>AudioRecorder.record\<close>\<close>

text \<open>
  The body of the \<open>while True\<close> after the frame has been read and classified (lines 108
  to 142), on the frame and its verdict.
\<close>

definition on_speech :: "config \<Rightarrow> frame \<Rightarrow> recorder \<times> world \<Rightarrow> recorder \<times> world" where
  "on_speech cfg frame sw =
     (let self = fst sw; w = snd sw;
          self = self\<lparr>speech_detected_in_recording := True\<rparr>;
          self = self\<lparr>silence_counter := 0\<rparr>;
          self = self\<lparr>speech_frame_counter := speech_frame_counter self + 1\<rparr>;
          self = self\<lparr>speech_pre_buffer := speech_pre_buffer self @ [frame]\<rparr>;
          (self, w) =
            (if \<not> recording self
                \<and> speech_frame_counter self \<ge> MINIMUM_CONSECUTIVE_SPEECH_FRAMES cfg
             then (self\<lparr>recording := True,
                         buffer := speech_pre_buffer self,
                         speech_pre_buffer := []\<rparr>,
                   print ''Speech confirmed, recording started'' w)
             else (self, w))
      in if recording self then (self\<lparr>buffer := buffer self @ [frame]\<rparr>, w)
         else (self, w))"

definition on_silence ::
  "config \<Rightarrow> frame \<Rightarrow> recorder \<times> world \<Rightarrow> exn + recorder \<times> world" where
  "on_silence cfg frame sw =
     (let self = fst sw; w = snd sw;
          self = self\<lparr>speech_frame_counter := 0\<rparr>;
          self = (if \<not> recording self then self\<lparr>speech_pre_buffer := []\<rparr> else self)
      in if recording self then
           let self = self\<lparr>silence_counter := silence_counter self + 1\<rparr>;
               self = self\<lparr>buffer := buffer self @ [frame]\<rparr>
           in if silence_counter self \<ge> silence_threshold self then
                (case (if speech_detected_in_recording self then save_recording cfg (self, w)
                       else Inr (self, w)) of
                   Inl e \<Rightarrow> Inl e
                 | Inr sw' \<Rightarrow>
                     Inr ((fst sw')\<lparr>recording := False,
                                    buffer := [],
                                    silence_counter := 0,
                                    speech_detected_in_recording := False\<rparr>, snd sw'))
              else Inr (self, w)
         else Inr (self, w))"

definition step ::
  "config \<Rightarrow> recorder \<times> world \<Rightarrow> frame \<times> bool \<Rightarrow> exn + recorder \<times> world" where
  "step cfg sw fv =
     (if snd fv then Inr (on_speech cfg (fst fv) sw) else on_silence cfg (fst fv) sw)"

text \<open>The loop on a finite stretch of frames; an exception ends it.\<close>

fun run ::
  "config \<Rightarrow> recorder \<times> world \<Rightarrow> (frame \<times> bool) list \<Rightarrow> exn + recorder \<times> world" where
  "run cfg sw [] = Inr sw"
| "run cfg sw (fv # rest) =
     (case step cfg sw fv of Inl e \<Rightarrow> Inl e | Inr sw' \<Rightarrow> run cfg sw' rest)"

subsection \<open>\<open>AudioRecorder.record\<close>\<close>

text \<open>
  What one turn of the loop meets when it asks the stream for a frame: a frame, with the
  detector's answer (the verdict, or the exception \<open>is_speech\<close> raised); the user's
  Ctrl+C, raised as \<open>KeyboardInterrupt\<close> out of the blocking read; or an exception of
  the stream itself.
\<close>

datatype event =
    Read frame "exn + bool"
  | KeyboardInterrupt
  | ReadFailed exn

text \<open>Lines 102 to 106: a detector that raises counts as no speech.\<close>

definition classify :: "exn + bool \<Rightarrow> bool" where
  "classify r = (case r of Inr is_speech \<Rightarrow> is_speech | Inl _ \<Rightarrow> False)"

text \<open>How the \<open>while True\<close> was left; it has no other way out.\<close>

datatype stop = Interrupt | Error exn

fun while_true ::
  "config \<Rightarrow> recorder \<times> world \<Rightarrow> event list \<Rightarrow> stop option \<times> recorder \<times> world" where
  "while_true cfg sw [] = (None, sw)"
| "while_true cfg sw (Read frame r # rest) =
     (case step cfg sw (frame, classify r) of
        Inl e \<Rightarrow> (Some (Error e), sw)
      | Inr sw' \<Rightarrow> while_true cfg sw' rest)"
| "while_true cfg sw (KeyboardInterrupt # rest) = (Some Interrupt, sw)"
| "while_true cfg sw (ReadFailed e # rest) = (Some (Error e), sw)"

text \<open>The handler \<open>except KeyboardInterrupt\<close> (lines 144 to 147).\<close>

definition on_keyboard_interrupt ::
  "config \<Rightarrow> recorder \<times> world \<Rightarrow> exn + recorder \<times> world" where
  "on_keyboard_interrupt cfg sw =
     (let self = fst sw; w = print ''Recording stopped by user'' (snd sw)
      in if recording self \<and> buffer self \<noteq> [] \<and> speech_detected_in_recording self
         then save_recording cfg (self, w)
         else Inr (self, w))"

text \<open>
  The \<open>finally\<close> clause (lines 148 to 151): \<open>stream.stop_stream()\<close>,
  \<open>stream.close()\<close>, \<open>audio.terminate()\<close>.
\<close>

definition release :: "world \<Rightarrow> world" where
  "release w = w\<lparr>stream_open := False, audio_alive := False\<rparr>"





section \<open>Notions used in the statements\<close>

text \<open>The file that \<open>_write_audio_file\<close> produces from a sample sequence.\<close>

definition encoded :: "config \<Rightarrow> recorder \<Rightarrow> 16 word list \<Rightarrow> audio_file" where
  "encoded cfg self audio_data =
     \<lparr>kind = (if lower (OUTPUT_FORMAT cfg) = ''wav'' then WAV else FLAC),
      rate = sample_rate self, samples = audio_data\<rparr>"

definition put_file :: "string \<Rightarrow> audio_file \<Rightarrow> world \<Rightarrow> world" where
  "put_file p af w = w\<lparr>files := (files w)(p \<mapsto> af)\<rparr>"

text \<open>Two worlds that differ at most in their files, their console and the call notes.\<close>

definition same_env :: "world \<Rightarrow> world \<Rightarrow> bool" where
  "same_env w w' \<longleftrightarrow> dirs w' = dirs w \<and> io_error w' = io_error w \<and> clock w' = clock w
     \<and> devices w' = devices w \<and> stream_open w' = stream_open w \<and> audio_alive w' = audio_alive w"

text \<open>
  The recorder in the middle of closing a segment, after the silent frame \<open>f\<close> has been
  counted and appended (lines 127 to 133), and the recorder after the reset of lines 139
  to 142.
\<close>

definition at_close :: "frame \<Rightarrow> recorder \<Rightarrow> recorder" where
  "at_close f self =
     self\<lparr>speech_frame_counter := 0, silence_counter := silence_counter self + 1,
          buffer := buffer self @ [f]\<rparr>"

definition after_close :: "recorder \<Rightarrow> recorder" where
  "after_close self =
     self\<lparr>speech_frame_counter := 0, silence_counter := 0, buffer := [],
          recording := False, speech_detected_in_recording := False\<rparr>"

text \<open>
  Concrete inputs: a world where only the backup directory exists and every write succeeds,
  a one-sample frame that stands for the \<open>i\<close>-th frame read, and stretches of frames
  that the detector takes for speech or for silence.
\<close>

definition still_world :: world where
  "still_world =
     \<lparr> dirs = {''./backup_audio/''}, files = Map.empty, io_error = (\<lambda>_. None),
       clock = ''20240101_120000'', stdout = [], devices = [''Blue Snowball''],
       stream_open = False, audio_alive = False, persist_calls = [] \<rparr>"

definition tone :: "nat \<Rightarrow> frame" where
  "tone i = [of_nat i]"

definition spoken :: "nat \<Rightarrow> nat \<Rightarrow> (frame \<times> bool) list" where
  "spoken a b = map (\<lambda>i. (tone i, True)) [a..<b]"

definition silent :: "nat \<Rightarrow> nat \<Rightarrow> (frame \<times> bool) list" where
  "silent a b = map (\<lambda>i. (tone i, False)) [a..<b]"

text \<open>What holds of the recorder whenever it is recording.\<close>

definition recording_inv :: "recorder \<Rightarrow> bool" where
  "recording_inv self \<longleftrightarrow>
     (recording self \<longrightarrow> speech_detected_in_recording self \<and> 2 \<le> length (buffer self))"

text \<open>
  The configuration with the other output format, a file that is already on disk, a world
  where no file can be created, and a world where the network directory is mounted.
\<close>

definition wav_config :: config where
  "wav_config = default_config\<lparr>OUTPUT_FORMAT := ''wav''\<rparr>"

definition old_take :: audio_file where
  "old_take = \<lparr>kind = WAV, rate = 16000, samples = [1, 2, 3]\<rparr>"





text \<open>
  Frames that are read and classified without an exception, as events of the loop; and the
  recorder and the world with which \<open>record\<close> enters its loop.
\<close>

definition reads :: "(frame \<times> bool) list \<Rightarrow> event list" where
  "reads fvs = map (\<lambda>fv. Read (fst fv) (Inr (snd fv))) fvs"


section \<open>Writing and saving\<close>

lemma write_audio_file_Inr:
  "write_audio_file cfg self d p w = Inr w' \<Longrightarrow> w' = put_file p (encoded cfg self d) w"
  by (auto simp: write_audio_file_def save_to_wave_file_def save_to_flac_file_def
      wave_open_wb_def soundfile_open_x_def encoded_def put_file_def
      split: if_splits option.splits)

lemma write_audio_file_Inl:
  "write_audio_file cfg self d p w = Inl e \<Longrightarrow>
     io_error w p = Some e \<or> (lower (OUTPUT_FORMAT cfg) \<noteq> ''wav'' \<and> p \<in> dom (files w))"
  by (auto simp: write_audio_file_def save_to_wave_file_def save_to_flac_file_def
      wave_open_wb_def soundfile_open_x_def
      split: if_splits option.splits)

lemma save_fallback_cases:
  "save_fallback cfg self d fn w =
     (case write_audio_file cfg self d (path_join (backup_path self) fn) w of
        Inr _ \<Rightarrow>
          Inr (print (''Saved recording to backup location: '' @ path_join (backup_path self) fn)
                 (put_file (path_join (backup_path self) fn) (encoded cfg self d) w))
      | Inl e \<Rightarrow> Inr (print (''Failed to save recording: '' @ str_of e) w))"
  by (auto simp: save_fallback_def Let_def dest: write_audio_file_Inr split: sum.splits)

lemma save_primary_cases:
  "save_primary cfg self d p w =
     (if \<not> path_exists w (network_path self) then
        Inl (FileNotFoundError
               (''Network directory '' @ network_path self @ '' does not exist''))
      else case write_audio_file cfg self d p w of
        Inl e \<Rightarrow> Inl e
      | Inr _ \<Rightarrow>
          Inr (print (''Saved recording to network drive: '' @ p)
                 (put_file p (encoded cfg self d) w)))"
  by (auto simp: save_primary_def dest: write_audio_file_Inr split: sum.splits)

lemma same_env_simps [simp]:
  "same_env w w"
  "same_env w (print l w') = same_env w w'"
  "same_env w (put_file p af w') = same_env w w'"
  "same_env w (w'\<lparr>persist_calls := pc\<rparr>) = same_env w w'"
  by (simp_all add: same_env_def print_def put_file_def)


lemma persist_calls_simps [simp]:
  "persist_calls (print l w) = persist_calls w"
  "persist_calls (put_file p af w) = persist_calls w"
  by (simp_all add: print_def put_file_def)

lemma save_recording_Inr: "\<exists>self' w'. save_recording cfg sw = Inr (self', w')"
  by (simp add: save_recording_def save_fallback_cases Let_def split: sum.split)

lemma save_recording_effect:
  assumes "save_recording cfg (self, w) = Inr (self', w')"
  shows "self' = (if length (buffer self) \<le> 1 then self else trim self)"
    and "same_env w w'"
    and "persist_calls w' = persist_calls w @ [(buffer self, silence_counter self)]"
  using assms
  by (auto simp add: save_recording_def save_primary_cases save_fallback_cases Let_def
      split: sum.splits if_splits)

section \<open>One turn of the loop, case by case\<close>

lemma on_speech_arming:
  assumes "\<not> recording self"
    and "speech_frame_counter self + 1 < MINIMUM_CONSECUTIVE_SPEECH_FRAMES cfg"
  shows "on_speech cfg f (self, w) =
     (self\<lparr>speech_detected_in_recording := True, silence_counter := 0,
           speech_frame_counter := speech_frame_counter self + 1,
           speech_pre_buffer := speech_pre_buffer self @ [f]\<rparr>, w)"
  using assms by (simp add: on_speech_def Let_def)

lemma on_speech_onset:
  assumes "\<not> recording self"
    and "MINIMUM_CONSECUTIVE_SPEECH_FRAMES cfg \<le> speech_frame_counter self + 1"
  shows "on_speech cfg f (self, w) =
     (self\<lparr>speech_detected_in_recording := True, silence_counter := 0,
           speech_frame_counter := speech_frame_counter self + 1,
           speech_pre_buffer := [], recording := True,
           buffer := speech_pre_buffer self @ [f] @ [f]\<rparr>,
      print ''Speech confirmed, recording started'' w)"
  using assms by (simp add: on_speech_def Let_def)

lemma on_speech_recording:
  assumes "recording self"
  shows "on_speech cfg f (self, w) =
     (self\<lparr>speech_detected_in_recording := True, silence_counter := 0,
           speech_frame_counter := speech_frame_counter self + 1,
           speech_pre_buffer := speech_pre_buffer self @ [f],
           buffer := buffer self @ [f]\<rparr>, w)"
  using assms by (simp add: on_speech_def Let_def)

lemma on_silence_idle:
  assumes "\<not> recording self"
  shows "on_silence cfg f (self, w) =
     Inr (self\<lparr>speech_frame_counter := 0, speech_pre_buffer := []\<rparr>, w)"
  using assms by (simp add: on_silence_def Let_def)

lemma on_silence_continue:
  assumes "recording self" and "silence_counter self + 1 < silence_threshold self"
  shows "on_silence cfg f (self, w) = Inr (at_close f self, w)"
  using assms by (simp add: on_silence_def Let_def at_close_def)

lemma on_silence_close:
  assumes "recording self" and "silence_threshold self \<le> silence_counter self + 1"
  shows "\<exists>w'. on_silence cfg f (self, w) = Inr (after_close self, w')
           \<and> (if speech_detected_in_recording self
               then \<exists>s'. save_recording cfg (at_close f self, w) = Inr (s', w')
               else w' = w)"
proof -
  obtain s' w' where sr: "save_recording cfg (at_close f self, w) = Inr (s', w')"
    using save_recording_Inr by blast
  have s': "s' = (if length (buffer (at_close f self)) \<le> 1 then at_close f self
                  else trim (at_close f self))"
    using save_recording_effect(1)[OF sr] .
  have c: "s'\<lparr>recording := False, buffer := [], silence_counter := 0,
               speech_detected_in_recording := False\<rparr> = after_close self"
    by (auto simp: s' at_close_def after_close_def trim_def Let_def)
  have cl: "self\<lparr>speech_frame_counter := 0, silence_counter := silence_counter self + 1,
               buffer := buffer self @ [f]\<rparr> = at_close f self"
    by (simp add: at_close_def)
  show ?thesis
  proof (cases "speech_detected_in_recording self")
    case True
    then show ?thesis using assms c
      by (simp add: on_silence_def Let_def cl sr) (simp add: at_close_def)
  next
    case False
    then show ?thesis using assms
      by (simp add: on_silence_def Let_def) (simp add: after_close_def)
  qed
qed

lemma step_Inr: "\<exists>self' w'. step cfg sw fv = Inr (self', w')"
proof (cases "snd fv")
  case True
  then show ?thesis by (simp add: step_def)
next
  case False
  obtain self w where sw: "sw = (self, w)" by (cases sw)
  consider "\<not> recording self"
    | "recording self" "silence_counter self + 1 < silence_threshold self"
    | "recording self" "silence_threshold self \<le> silence_counter self + 1"
    by linarith
  then show ?thesis
  proof cases
    case 1
    then show ?thesis using False by (simp add: step_def sw on_silence_idle)
  next
    case 2
    then show ?thesis using False by (simp add: step_def sw on_silence_continue)
  next
    case 3
    then show ?thesis using False on_silence_close[OF 3, of cfg "fst fv" w]
      by (auto simp add: step_def sw)
  qed
qed

section \<open>The loop keeps its invariant\<close>

lemma on_speech_inv:
  assumes "recording_inv self" "on_speech cfg f (self, w) = (self', w')"
  shows "recording_inv self'"
proof -
  consider "\<not> recording self" "speech_frame_counter self + 1 < MINIMUM_CONSECUTIVE_SPEECH_FRAMES cfg"
    | "\<not> recording self" "MINIMUM_CONSECUTIVE_SPEECH_FRAMES cfg \<le> speech_frame_counter self + 1"
    | "recording self" by linarith
  then show ?thesis
  proof cases
    case 1 with assms show ?thesis by (auto simp: on_speech_arming recording_inv_def)
  next
    case 2 with assms show ?thesis by (auto simp: on_speech_onset recording_inv_def)
  next
    case 3 with assms show ?thesis by (auto simp: on_speech_recording recording_inv_def)
  qed
qed

lemma on_silence_inv:
  assumes "recording_inv self" "on_silence cfg f (self, w) = Inr (self', w')"
  shows "recording_inv self'"
proof -
  consider "\<not> recording self"
    | "recording self" "silence_counter self + 1 < silence_threshold self"
    | "recording self" "silence_threshold self \<le> silence_counter self + 1"
    by linarith
  then show ?thesis
  proof cases
    case 1 with assms show ?thesis by (auto simp: on_silence_idle recording_inv_def)
  next
    case 2 with assms show ?thesis by (auto simp: on_silence_continue recording_inv_def at_close_def)
  next
    case 3 with assms on_silence_close[OF 3, of cfg f w] show ?thesis
      by (auto simp: recording_inv_def after_close_def)
  qed
qed

lemma step_inv:
  assumes "recording_inv self" "step cfg (self, w) fv = Inr (self', w')"
  shows "recording_inv self'"
  using assms by (auto simp: step_def dest: on_speech_inv on_silence_inv split: if_splits)

lemma run_inv:
  "recording_inv self \<Longrightarrow> run cfg (self, w) fvs = Inr (self', w') \<Longrightarrow> recording_inv self'"
proof (induction fvs arbitrary: self w)
  case Nil
  then show ?case by simp
next
  case (Cons fv fvs)
  obtain s1 w1 where s: "step cfg (self, w) fv = Inr (s1, w1)" using step_Inr by blast
  with Cons show ?case by (auto dest: step_inv)
qed

lemma run_Inr: "\<exists>self' w'. run cfg sw fvs = Inr (self', w')"
proof (induction fvs arbitrary: sw)
  case Nil
  then show ?case by (cases sw) simp
next
  case (Cons fv fvs)
  obtain s1 w1 where s: "step cfg sw fv = Inr (s1, w1)" using step_Inr by blast
  with Cons show ?case by simp
qed

lemma init_Inr:
  "init cfg w0 = Inr (self0, w1) \<Longrightarrow> self0 = new_recorder cfg \<and> FRAME_DURATION cfg \<noteq> 0"
  by (auto simp: init_def split: if_splits)

lemma new_recorder_inv: "recording_inv (new_recorder cfg)"
  by (simp add: recording_inv_def new_recorder_def)

lemma init_default: "init default_config still_world = Inr (new_recorder default_config, still_world)"
  by (simp add: init_def default_config_def still_world_def path_exists_def)

section \<open>Before onset\<close>

lemma replicate_sublist_grow:
  "m \<le> n \<Longrightarrow> sublist (replicate m x) (replicate n x @ ys)"
proof -
  assume "m \<le> n"
  then have "replicate n x @ ys = replicate m x @ (replicate (n - m) x @ ys)"
    by (simp add: replicate_add [symmetric])
  then show ?thesis by (metis sublist_append_rightI)
qed

lemma replicate_Suc_append: "replicate (Suc n) x @ ys = replicate n x @ x # ys"
  by (induction n) auto

lemma sublist_after: "sublist xs zs \<Longrightarrow> sublist xs (ys @ zs)"
  by (metis sublist_order.order_trans suffix_imp_sublist suffixI)

lemma arming_run:
  assumes "\<not> recording self" "buffer self = []" "0 \<le> speech_frame_counter self"
    and "\<not> sublist (replicate (nat (MINIMUM_CONSECUTIVE_SPEECH_FRAMES cfg)) True)
             (replicate (nat (speech_frame_counter self)) True @ map snd fvs)"
  shows "\<exists>self'. run cfg (self, w) fvs = Inr (self', w) \<and> \<not> recording self' \<and> buffer self' = []"
  using assms
proof (induction fvs arbitrary: self)
  case Nil
  then show ?case by simp
next
  case (Cons fv fvs)
  obtain f v where fv: "fv = (f, v)" by (cases fv)
  let ?R = "replicate (nat (MINIMUM_CONSECUTIVE_SPEECH_FRAMES cfg)) True"
  let ?c = "speech_frame_counter self"
  show ?case
  proof (cases v)
    case True
    then have e: "map snd (fv # fvs) = True # map snd fvs" by (simp add: fv)
    have lt: "?c + 1 < MINIMUM_CONSECUTIVE_SPEECH_FRAMES cfg"
    proof (rule ccontr)
      assume "\<not> ?thesis"
      then have "nat (MINIMUM_CONSECUTIVE_SPEECH_FRAMES cfg) \<le> Suc (nat ?c)"
        using Cons.prems(3) by linarith
      then have "sublist ?R (replicate (Suc (nat ?c)) True @ map snd fvs)"
        by (rule replicate_sublist_grow)
      then have "sublist ?R (replicate (nat ?c) True @ map snd (fv # fvs))"
        by (simp only: e replicate_Suc_append)
      then show False using Cons.prems(4) by simp
    qed
    let ?s = "self\<lparr>speech_detected_in_recording := True, silence_counter := 0,
           speech_frame_counter := ?c + 1,
           speech_pre_buffer := speech_pre_buffer self @ [f]\<rparr>"
    have st: "step cfg (self, w) fv = Inr (?s, w)"
      using True Cons.prems(1) lt by (simp add: step_def fv on_speech_arming)
    have "nat (?c + 1) = Suc (nat ?c)" using Cons.prems(3) by linarith
    then have "replicate (nat (speech_frame_counter ?s)) True @ map snd fvs
        = replicate (nat ?c) True @ map snd (fv # fvs)"
      using True by (simp add: fv replicate_append_same)
    with Cons.prems have "\<exists>self'. run cfg (?s, w) fvs = Inr (self', w) \<and> \<not> recording self' \<and> buffer self' = []"
      by (intro Cons.IH) simp_all
    then show ?thesis by (simp add: st)
  next
    case False
    let ?s = "self\<lparr>speech_frame_counter := 0, speech_pre_buffer := []\<rparr>"
    have st: "step cfg (self, w) fv = Inr (?s, w)"
      using False Cons.prems(1) by (simp add: step_def fv on_silence_idle)
    have "\<not> sublist ?R (map snd fvs)"
    proof
      assume "sublist ?R (map snd fvs)"
      then have "sublist ?R ((replicate (nat ?c) True @ [v]) @ map snd fvs)"
        by (rule sublist_after)
      then show False using Cons.prems(4) by (simp add: fv)
    qed
    with Cons.prems have "\<exists>self'. run cfg (?s, w) fvs = Inr (self', w) \<and> \<not> recording self' \<and> buffer self' = []"
      by (intro Cons.IH) simp_all
    then show ?thesis by (simp add: st)
  qed
qed

section \<open>Stretches of silence and of speech\<close>





section \<open>What a save leaves behind\<close>


lemma trim_paths [simp]:
  "network_path (trim self) = network_path self" "backup_path (trim self) = backup_path self"
  by (simp_all add: trim_def Let_def)

lemma noted_simps [simp]:
  "path_exists (w\<lparr>persist_calls := pc\<rparr>) p = path_exists w p"
  "file_name cfg (w\<lparr>persist_calls := pc\<rparr>) = file_name cfg w"
  by (simp_all add: path_exists_def file_name_def)


lemma dirs_simps [simp]:
  "dirs (print l w) = dirs w" "dirs (put_file p af w) = dirs w"
  by (simp_all add: print_def put_file_def)

lemma files_simps [simp]:
  "files (print l w) = files w" "files (put_file p af w) = (files w)(p \<mapsto> af)"
  by (simp_all add: print_def put_file_def)

lemma stdout_simps [simp]:
  "stdout (print l w) = stdout w @ [l]" "stdout (put_file p af w) = stdout w"
  by (simp_all add: print_def put_file_def)

lemma lower_wav: "lower ''wav'' = ''wav''" "lower ''flac'' = ''flac''"
  by code_simp+







section \<open>The loop and its exits\<close>




lemma while_true_reads:
  "run cfg sw fvs = Inr sw' \<Longrightarrow> while_true cfg sw (reads fvs) = (None, sw')"
proof (induction fvs arbitrary: sw)
  case Nil
  then show ?case by (simp add: reads_def)
next
  case (Cons fv fvs)
  then show ?case
    by (cases "step cfg sw fv") (auto simp: reads_def classify_def)
qed


lemma released [simp]: "\<not> stream_open (release w)" "\<not> audio_alive (release w)"
  by (simp_all add: release_def)



section \<open>The claims\<close>

text \<open>
  C6. A frame that is not speech, processed while the recorder is not recording (that is,
  before onset is confirmed), sets the count of consecutive speech frames to zero and
  leaves the pre-buffer empty; nothing else changes, in the recorder or outside it.
\<close>

theorem non_speech_before_onset_resets:
  assumes "\<not> recording self"
  shows "step cfg (self, w) (f, False) =
           Inr (self\<lparr>speech_frame_counter := 0, speech_pre_buffer := []\<rparr>, w)
         \<and> (\<forall>self' w'. step cfg (self, w) (f, False) = Inr (self', w') \<longrightarrow>
               speech_frame_counter self' = 0 \<and> speech_pre_buffer self' = []
               \<and> \<not> recording self')"
  using assms by (simp add: step_def on_silence_idle)

theorem non_speech_before_onset_resets_witness:
  "\<exists>self w. run default_config (new_recorder default_config, still_world) (spoken 1 4)
              = Inr (self, w)
     \<and> \<not> recording self \<and> speech_frame_counter self = 3
     \<and> speech_pre_buffer self = [tone 1, tone 2, tone 3]
     \<and> step default_config (self, w) (tone 4, False) =
         Inr (self\<lparr>speech_frame_counter := 0, speech_pre_buffer := []\<rparr>, w)"
proof -
  have "case run default_config (new_recorder default_config, still_world) (spoken 1 4) of
          Inl e \<Rightarrow> False
        | Inr sw \<Rightarrow> \<not> recording (fst sw) \<and> speech_frame_counter (fst sw) = 3
            \<and> speech_pre_buffer (fst sw) = [tone 1, tone 2, tone 3]"
    by code_simp
  then obtain self w where r:
    "run default_config (new_recorder default_config, still_world) (spoken 1 4) = Inr (self, w)"
    and s: "\<not> recording self" "speech_frame_counter self = 3"
      "speech_pre_buffer self = [tone 1, tone 2, tone 3]"
    by (auto split: sum.splits)
  from non_speech_before_onset_resets [OF s(1), of default_config w "tone 4"] r s
  show ?thesis by blast
qed

text \<open>
  C9. From a fresh recorder, whatever frames and verdicts the loop has processed, a
  recorder that is recording has its speech flag set (and holds at least two frames). So
  neither test of the flag ever holds a save back: the interrupt handler does call
  \<open>save_recording\<close>, and so does the close of a segment at the silence threshold.
\<close>

theorem recording_implies_speech_detected:
  assumes "init cfg w0 = Inr sw0" and "run cfg sw0 fvs = Inr (self, w)" and "recording self"
  shows "speech_detected_in_recording self
    \<and> on_keyboard_interrupt cfg (self, w) =
        save_recording cfg (self, print ''Recording stopped by user'' w)
    \<and> (silence_threshold self \<le> silence_counter self + 1 \<longrightarrow>
        (\<exists>self' w'. step cfg (self, w) (f, False) = Inr (self', w')
           \<and> persist_calls w' = persist_calls w @ [(buffer self @ [f], silence_counter self + 1)]))"
proof -
  obtain w1 where sw0: "sw0 = (new_recorder cfg, w1)"
    using assms(1) init_Inr by (cases sw0) auto
  have inv: "recording_inv self"
    using run_inv[OF new_recorder_inv] assms(2) unfolding sw0 by blast
  with assms(3) have sd: "speech_detected_in_recording self" and len: "2 \<le> length (buffer self)"
    by (simp_all add: recording_inv_def)
  from len have ne: "buffer self \<noteq> []" by auto
  have ki: "on_keyboard_interrupt cfg (self, w) =
        save_recording cfg (self, print ''Recording stopped by user'' w)"
    using assms(3) sd ne by (simp add: on_keyboard_interrupt_def Let_def)
  have cl: "\<exists>self' w'. step cfg (self, w) (f, False) = Inr (self', w')
           \<and> persist_calls w' = persist_calls w @ [(buffer self @ [f], silence_counter self + 1)]"
    if thr: "silence_threshold self \<le> silence_counter self + 1"
  proof -
    from on_silence_close[OF assms(3) thr, of cfg f w] sd
    obtain w' s' where 1: "on_silence cfg f (self, w) = Inr (after_close self, w')"
      and 2: "save_recording cfg (at_close f self, w) = Inr (s', w')" by auto
    from save_recording_effect(3)[OF 2] 1 show ?thesis
      by (auto simp: step_def at_close_def)
  qed
  from sd ki cl show ?thesis by blast
qed

theorem recording_implies_speech_detected_witness:
  "\<exists>sw0 self w. init default_config still_world = Inr sw0
     \<and> run default_config sw0 (spoken 1 8 @ silent 8 107) = Inr (self, w)
     \<and> recording self \<and> speech_detected_in_recording self
     \<and> on_keyboard_interrupt default_config (self, w) =
         save_recording default_config (self, print ''Recording stopped by user'' w)
     \<and> silence_threshold self \<le> silence_counter self + 1
     \<and> (\<exists>self' w'. step default_config (self, w) (tone 107, False) = Inr (self', w')
           \<and> persist_calls w' =
               persist_calls w @ [(buffer self @ [tone 107], silence_counter self + 1)])"
proof -
  have "case run default_config (new_recorder default_config, still_world) (spoken 1 8 @ silent 8 107) of
          Inl e \<Rightarrow> False
        | Inr sw \<Rightarrow> recording (fst sw)
            \<and> silence_threshold (fst sw) \<le> silence_counter (fst sw) + 1"
    by code_simp
  then obtain self w where r:
    "run default_config (new_recorder default_config, still_world) (spoken 1 8 @ silent 8 107) = Inr (self, w)"
    and s: "recording self" and t: "silence_threshold self \<le> silence_counter self + 1"
    by (auto split: sum.splits)
  from recording_implies_speech_detected [OF init_default r s, of "tone 107"] init_default r s t
  show ?thesis by blast
qed

text \<open>
  C5. When the verdicts hold no run of \<open>MINIMUM_CONSECUTIVE_SPEECH_FRAMES\<close> consecutive
  speech verdicts, then after every number \<open>n\<close> of frames the recorder is not recording
  and its buffer is empty, and the world is the one the loop started in: nothing was
  printed, \<open>save_recording\<close> was never entered and no file was written. An interrupt at
  that point prints its line and saves nothing.
\<close>

theorem no_long_speech_run_no_segment:
  assumes "init cfg w0 = Inr (self0, w1)"
    and "\<not> sublist (replicate (nat (MINIMUM_CONSECUTIVE_SPEECH_FRAMES cfg)) True) (map snd fvs)"
  shows "\<exists>self. run cfg (self0, w1) (take n fvs) = Inr (self, w1)
           \<and> \<not> recording self \<and> buffer self = []
           \<and> on_keyboard_interrupt cfg (self, w1) =
               Inr (self, print ''Recording stopped by user'' w1)"
proof -
  have s0: "self0 = new_recorder cfg" using assms(1) init_Inr by blast
  have "\<not> sublist (replicate (nat (MINIMUM_CONSECUTIVE_SPEECH_FRAMES cfg)) True)
          (map snd (take n fvs))"
  proof
    assume "sublist (replicate (nat (MINIMUM_CONSECUTIVE_SPEECH_FRAMES cfg)) True)
          (map snd (take n fvs))"
    moreover have "sublist (map snd (take n fvs)) (map snd fvs)"
      by (simp add: take_map [symmetric])
    ultimately show False using assms(2) sublist_order.order_trans by blast
  qed
  then obtain self where "run cfg (self0, w1) (take n fvs) = Inr (self, w1)"
    "\<not> recording self" "buffer self = []"
    using arming_run [of self0 cfg "take n fvs" w1] by (auto simp: s0 new_recorder_def)
  then show ?thesis by (auto simp: on_keyboard_interrupt_def Let_def)
qed

theorem no_long_speech_run_no_segment_witness:
  "init default_config still_world = Inr (new_recorder default_config, still_world)
   \<and> \<not> sublist (replicate (nat (MINIMUM_CONSECUTIVE_SPEECH_FRAMES default_config)) True)
         (map snd (spoken 1 7 @ silent 7 8 @ spoken 8 14))
   \<and> (\<exists>self. run default_config (new_recorder default_config, still_world)
                (take 13 (spoken 1 7 @ silent 7 8 @ spoken 8 14)) = Inr (self, still_world)
         \<and> \<not> recording self \<and> buffer self = []
         \<and> on_keyboard_interrupt default_config (self, still_world) =
               Inr (self, print ''Recording stopped by user'' still_world))"
proof -
  have h: "\<not> sublist (replicate (nat (MINIMUM_CONSECUTIVE_SPEECH_FRAMES default_config)) True)
         (map snd (spoken 1 7 @ silent 7 8 @ spoken 8 14))"
    by code_simp
  from no_long_speech_run_no_segment [OF init_default h, of 13] init_default h
  show ?thesis by blast
qed



text \<open>
  C1, on the code. With the configuration of \<open>config.py\<close> (30 ms frames, 7 speech frames
  to confirm, 3 s of silence, hence a threshold of 100 frames), 7 speech frames followed by
  100 silent frames enter \<open>save_recording\<close> exactly once, and the buffer handed over holds
  108 frames, not 107: the seventh frame, which confirms onset, is in the pre-buffer that
  line 120 copies and is appended once more by line 124.
\<close>

theorem onset_frame_is_buffered_twice:
  "case run default_config (new_recorder default_config, still_world)
          (spoken 1 8 @ silent 8 108) of
     Inl e \<Rightarrow> False
   | Inr sw \<Rightarrow>
       persist_calls (snd sw) = [(map tone [1..<8] @ [tone 7] @ map tone [8..<108], 100)]
       \<and> map (\<lambda>c. length (fst c)) (persist_calls (snd sw)) = [108]
       \<and> \<not> distinct (fst (hd (persist_calls (snd sw))))"
  by code_simp


text \<open>
  C2, on the code. With the same configuration, 8 speech frames followed by 100 silent
  frames close a segment: afterwards the recorder is not recording, its buffer is empty and
  both counters are 0, but the pre-buffer still holds the eighth frame, which was appended
  to it while recording and which the reset of lines 139 to 142 does not remove.
\<close>

theorem pre_buffer_not_emptied_at_close:
  "case run default_config (new_recorder default_config, still_world)
          (spoken 1 9 @ silent 9 109) of
     Inl e \<Rightarrow> False
   | Inr sw \<Rightarrow>
       \<not> recording (fst sw) \<and> buffer (fst sw) = []
       \<and> speech_frame_counter (fst sw) = 0 \<and> silence_counter (fst sw) = 0
       \<and> speech_pre_buffer (fst sw) = [tone 8]
       \<and> map (\<lambda>c. length (fst c)) (persist_calls (snd sw)) = [109]"
  by code_simp

text \<open>
  C3, on the code. With \<open>OUTPUT_FORMAT = "wav"\<close>, writing to a path where a file already
  is succeeds and replaces the file: \<open>wave.open(filepath, 'wb')\<close> truncates. With the
  format \<open>flac\<close> the same write raises, because the file is opened with \<open>mode='x'\<close>.
\<close>

theorem wav_write_replaces_existing_file:
  "write_audio_file wav_config (new_recorder wav_config) [7, 8] ''./backup_audio/a.wav''
     (still_world\<lparr>files := [''./backup_audio/a.wav'' \<mapsto> old_take]\<rparr>)
   = Inr (still_world\<lparr>files := [''./backup_audio/a.wav'' \<mapsto>
            \<lparr>kind = WAV, rate = 16000, samples = [7, 8]\<rparr>]\<rparr>)
   \<and> write_audio_file default_config (new_recorder default_config) [7, 8]
       ''./backup_audio/a.wav''
       (still_world\<lparr>files := [''./backup_audio/a.wav'' \<mapsto> old_take]\<rparr>)
     = Inl (OSError ''File exists: ./backup_audio/a.wav'')"
  by (simp add: write_audio_file_def wav_config_def default_config_def lower_wav
      save_to_wave_file_def wave_open_wb_def save_to_flac_file_def soundfile_open_x_def
      still_world_def new_recorder_def)









end
